theory Spec2Isabelle
  imports Main "HOL-Library.Sublist"
begin

section \<open>Python values handled by the quiz generator\<close>

text \<open>
  \<^verbatim>\<open>Generate_Question.py\<close> works on whatever the chain's \<^verbatim>\<open>JsonOutputParser\<close> hands back:
  a decoded JSON value. The parser is built with \<^verbatim>\<open>pydantic_object=QuestionSchema\<close>, but
  the schema only declares four typed fields (\<^verbatim>\<open>question: str\<close>, \<^verbatim>\<open>choices: List[Choice]\<close>,
  \<^verbatim>\<open>answer: str\<close>, \<^verbatim>\<open>explanation: str\<close>) and no validator, so the values are modelled
  dynamically, as the code treats them: \<^verbatim>\<open>None\<close>, booleans, integers, strings, lists and
  dictionaries with string keys. A dictionary is an association list in which the first
  binding of a key is the one that counts. Non-integer numbers are not represented.
\<close>

datatype pyval =
    PyNone
  | PyBool bool
  | PyInt int
  | PyStr string
  | PyList "pyval list"
  | PyDict "(string \<times> pyval) list"

text \<open>Python's truth value of an object, as used by \<^verbatim>\<open>not question['question']\<close>.\<close>

fun truthy :: "pyval \<Rightarrow> bool" where
  "truthy PyNone = False"
| "truthy (PyBool b) = b"
| "truthy (PyInt n) = (n \<noteq> 0)"
| "truthy (PyStr s) = (s \<noteq> [])"
| "truthy (PyList xs) = (xs \<noteq> [])"
| "truthy (PyDict d) = (d \<noteq> [])"

text \<open>
  Python's \<^verbatim>\<open>==\<close> on these values: strings compare character by character, \<^verbatim>\<open>True == 1\<close>
  and \<^verbatim>\<open>False == 0\<close> hold, lists compare element by element, dictionaries compare as
  finite maps (the order of the keys does not matter), and values of different kinds are
  otherwise unequal.
\<close>

function py_eq :: "pyval \<Rightarrow> pyval \<Rightarrow> bool" where
  "py_eq PyNone w = (case w of PyNone \<Rightarrow> True | _ \<Rightarrow> False)"
| "py_eq (PyBool a) w =
     (case w of PyBool b \<Rightarrow> a = b | PyInt n \<Rightarrow> (if a then 1 else 0) = n | _ \<Rightarrow> False)"
| "py_eq (PyInt m) w =
     (case w of PyBool b \<Rightarrow> m = (if b then 1 else 0) | PyInt n \<Rightarrow> m = n | _ \<Rightarrow> False)"
| "py_eq (PyStr s) w = (case w of PyStr t \<Rightarrow> s = t | _ \<Rightarrow> False)"
| "py_eq (PyList xs) w = (case w of PyList ys \<Rightarrow> list_all2 py_eq xs ys | _ \<Rightarrow> False)"
| "py_eq (PyDict d) w =
     (case w of
        PyDict e \<Rightarrow>
          list_all
            (\<lambda>k. case map_of d k of
                   None \<Rightarrow> False
                 | Some v \<Rightarrow> (case map_of e k of None \<Rightarrow> False | Some u \<Rightarrow> py_eq v u))
            (map fst d @ map fst e)
      | _ \<Rightarrow> False)"
  by pat_completeness auto
termination
proof (relation "measure (\<lambda>(v, w). size v)")
  show "wf (measure (\<lambda>(v, w). size v))" by simp
next
  fix xs :: "pyval list" and w :: pyval and ys :: "pyval list" and x y :: pyval
  assume "x \<in> set xs"
  then show "((x, y), (PyList xs, w)) \<in> measure (\<lambda>(v, w). size v)"
    by (simp add: size_list_estimation' less_Suc_eq_le)
next
  fix d :: "(string \<times> pyval) list" and w :: pyval and e :: "(string \<times> pyval) list"
    and k :: string and v u :: pyval
  assume "map_of d k = Some v"
  then have "size v < Suc (size_list (size_prod (\<lambda>_. 0) size) d)"
    by (induction d) (auto split: if_splits)
  then show "((v, u), (PyDict d, w)) \<in> measure (\<lambda>(v, w). size v)"
    by simp
qed

section \<open>Exceptions\<close>

text \<open>
  Every \<^verbatim>\<open>raise\<close> of the source and every exception of an operation it uses is a value.
  \<^verbatim>\<open>ValueError\<close> carries its message. \<^verbatim>\<open>JSONDecodeError\<close> is what \<^verbatim>\<open>json.loads\<close> raises on
  text that is not JSON; \<^verbatim>\<open>OutputParserException\<close> is what the chain's output parser raises
  on a model response it cannot decode; \<^verbatim>\<open>ModelError\<close> stands for the failures of the
  model call and of the retriever.
\<close>

datatype exn =
    ValueError string
  | TypeError
  | KeyError
  | JSONDecodeError
  | OutputParserException
  | ModelError

text \<open>\<^verbatim>\<open>k in v\<close> for a string \<^verbatim>\<open>k\<close>: key membership in a dictionary, substring test on a
  string, element test on a list, \<^verbatim>\<open>TypeError\<close> on a value that is not a container.\<close>

fun py_in :: "string \<Rightarrow> pyval \<Rightarrow> exn + bool" where
  "py_in k (PyDict d) = Inr (map_of d k \<noteq> None)"
| "py_in k (PyStr s) = Inr (sublist k s)"
| "py_in k (PyList xs) = Inr (list_ex (py_eq (PyStr k)) xs)"
| "py_in k PyNone = Inl TypeError"
| "py_in k (PyBool b) = Inl TypeError"
| "py_in k (PyInt n) = Inl TypeError"

text \<open>\<^verbatim>\<open>v[k]\<close> for a string \<^verbatim>\<open>k\<close>: \<^verbatim>\<open>KeyError\<close> on a dictionary without the key,
  \<^verbatim>\<open>TypeError\<close> on every other kind of value (strings and lists take integer indices, the
  rest cannot be subscripted).\<close>

fun py_getitem :: "pyval \<Rightarrow> string \<Rightarrow> exn + pyval" where
  "py_getitem (PyDict d) k = (case map_of d k of None \<Rightarrow> Inl KeyError | Some v \<Rightarrow> Inr v)"
| "py_getitem (PyStr s) k = Inl TypeError"
| "py_getitem (PyList xs) k = Inl TypeError"
| "py_getitem PyNone k = Inl TypeError"
| "py_getitem (PyBool b) k = Inl TypeError"
| "py_getitem (PyInt n) k = Inl TypeError"

text \<open>
  \<^verbatim>\<open>json.loads(x)\<close>: a \<^verbatim>\<open>TypeError\<close> unless \<^verbatim>\<open>x\<close> is text. What the decoder makes of a text
  is the library's business and is a parameter here: \<open>loads s = None\<close> when \<^verbatim>\<open>s\<close> is not a
  JSON document (\<^verbatim>\<open>JSONDecodeError\<close>), the decoded value otherwise.
\<close>

fun json_loads :: "(string \<Rightarrow> pyval option) \<Rightarrow> pyval \<Rightarrow> exn + pyval" where
  "json_loads loads (PyStr s) =
     (case loads s of None \<Rightarrow> Inl JSONDecodeError | Some v \<Rightarrow> Inr v)"
| "json_loads loads PyNone = Inl TypeError"
| "json_loads loads (PyBool b) = Inl TypeError"
| "json_loads loads (PyInt n) = Inl TypeError"
| "json_loads loads (PyList xs) = Inl TypeError"
| "json_loads loads (PyDict d) = Inl TypeError"

section \<open>The quiz generator\<close>

text \<open>
  The fields of a \<^verbatim>\<open>QuizGenerator\<close> that the generation loop reads or writes.
  \<open>vectorstore\<close> records whether a truthy vector store was supplied, \<open>llm\<close> whether the language
  model has been initialised. \<open>chain_calls\<close> is not a field of the Python object: it counts
  the chain invocations made so far, so that the outside world can be a function of that
  count.
\<close>

record quiz_generator =
  topic :: string
  num_questions :: int
  vectorstore :: bool
  llm :: bool
  question_bank :: "pyval list"
  chain_calls :: nat

text \<open>
  \<^verbatim>\<open>QuizGenerator.__init__(topic, num_questions, vectorstore)\<close>. The topic is \<^verbatim>\<open>None\<close> or a
  string; \<^verbatim>\<open>not topic\<close> holds for \<^verbatim>\<open>None\<close> and for the empty string.
\<close>

definition QuizGenerator_init :: "string option \<Rightarrow> int \<Rightarrow> bool \<Rightarrow> exn + quiz_generator" where
  "QuizGenerator_init topic_arg n vs =
     (let t = (case topic_arg of
                 None \<Rightarrow> ''General Knowledge''
               | Some s \<Rightarrow> if s = [] then ''General Knowledge'' else s)
      in if n > 10 then Inl (ValueError ''Number of questions cannot exceed 10.'')
         else Inr \<lparr>topic = t, num_questions = n, vectorstore = vs, llm = False,
                   question_bank = [], chain_calls = 0\<rparr>)"

text \<open>\<^verbatim>\<open>init_llm\<close> stores a model client in \<^verbatim>\<open>self.llm\<close>; building the client is taken to
  succeed.\<close>

definition init_llm :: "quiz_generator \<Rightarrow> quiz_generator" where
  "init_llm g = g\<lparr>llm := True\<rparr>"

text \<open>
  One invocation of the chain either raises or returns a value. The chain (retriever,
  prompt, model and output parser) is outside the repository: it is a function of the topic
  it is invoked with and of the number of invocations made before.
\<close>

datatype chain_outcome = Raises exn | Returns pyval

type_synonym chain = "string \<Rightarrow> nat \<Rightarrow> chain_outcome"

definition generate_question_with_vectorstore ::
    "chain \<Rightarrow> quiz_generator \<Rightarrow> (exn + pyval) \<times> quiz_generator" where
  "generate_question_with_vectorstore ch g =
     (let g1 = (if \<not> llm g then init_llm g else g)
      in if \<not> vectorstore g1 then (Inl (ValueError ''Vectorstore not provided.''), g1)
         else (case ch (topic g1) (chain_calls g1) of
                 Raises e \<Rightarrow> (Inl e, g1\<lparr>chain_calls := Suc (chain_calls g1)\<rparr>)
               | Returns v \<Rightarrow> (Inr v, g1\<lparr>chain_calls := Suc (chain_calls g1)\<rparr>)))"

text \<open>
  The scan of \<^verbatim>\<open>validate_question\<close>: the bank is read from the front and the scan stops at
  the first entry whose \<^verbatim>\<open>'question'\<close> equals the candidate's text \<open>t\<close>. Reading
  \<^verbatim>\<open>question_iterated['question']\<close> raises on an entry without that key.
\<close>

fun scan_bank :: "pyval list \<Rightarrow> pyval \<Rightarrow> exn + bool" where
  "scan_bank [] t = Inr True"
| "scan_bank (question_iterated # rest) t =
     (case py_getitem question_iterated ''question'' of
        Inl e \<Rightarrow> Inl e
      | Inr u \<Rightarrow> if py_eq u t then Inr False else scan_bank rest t)"

definition validate_question :: "quiz_generator \<Rightarrow> pyval \<Rightarrow> exn + bool" where
  "validate_question g question =
     (case py_in ''question'' question of
        Inl e \<Rightarrow> Inl e
      | Inr False \<Rightarrow> Inl (ValueError ''The dict object must contain a non-empty 'question' key'')
      | Inr True \<Rightarrow>
          (case py_getitem question ''question'' of
             Inl e \<Rightarrow> Inl e
           | Inr t \<Rightarrow>
               if \<not> truthy t
               then Inl (ValueError ''The dict object must contain a non-empty 'question' key'')
               else scan_bank (question_bank g) t))"

text \<open>
  The retry loop \<^verbatim>\<open>for i in range(3)\<close> of \<^verbatim>\<open>generate_quiz\<close>, with the number of attempts
  left as its argument. The chain is invoked before the \<^verbatim>\<open>try\<close>; only \<^verbatim>\<open>json.loads\<close> is
  inside it, and only \<^verbatim>\<open>json.JSONDecodeError\<close> is caught. On a duplicate the source evaluates
  \<^verbatim>\<open>"... - Attempt " + (i+1)\<close>, a string plus an integer, which raises \<^verbatim>\<open>TypeError\<close> before
  anything is printed and before the \<^verbatim>\<open>continue\<close>. Console output is not modelled.
\<close>

fun retry_loop ::
    "chain \<Rightarrow> (string \<Rightarrow> pyval option) \<Rightarrow> nat \<Rightarrow> quiz_generator \<Rightarrow> (exn + unit) \<times> quiz_generator" where
  "retry_loop ch loads 0 g = (Inr (), g)"
| "retry_loop ch loads (Suc k) g =
     (case generate_question_with_vectorstore ch g of
        (Inl e, g1) \<Rightarrow> (Inl e, g1)
      | (Inr question_str, g1) \<Rightarrow>
          (case json_loads loads question_str of
             Inl e \<Rightarrow> if e = JSONDecodeError then retry_loop ch loads k g1 else (Inl e, g1)
           | Inr question \<Rightarrow>
               (case validate_question g1 question of
                  Inl e \<Rightarrow> (Inl e, g1)
                | Inr True \<Rightarrow> (Inr (), g1\<lparr>question_bank := question_bank g1 @ [question]\<rparr>)
                | Inr False \<Rightarrow> (Inl TypeError, g1))))"

text \<open>The outer loop \<^verbatim>\<open>for _ in range(self.num_questions)\<close>, with the number of slots left.\<close>

fun main_loop ::
    "chain \<Rightarrow> (string \<Rightarrow> pyval option) \<Rightarrow> nat \<Rightarrow> quiz_generator \<Rightarrow> (exn + unit) \<times> quiz_generator" where
  "main_loop ch loads 0 g = (Inr (), g)"
| "main_loop ch loads (Suc k) g =
     (case generate_question_with_vectorstore ch g of
        (Inl e, g1) \<Rightarrow> (Inl e, g1)
      | (Inr question, g1) \<Rightarrow>
          (case validate_question g1 question of
             Inl e \<Rightarrow> (Inl e, g1)
           | Inr True \<Rightarrow>
               main_loop ch loads k (g1\<lparr>question_bank := question_bank g1 @ [question]\<rparr>)
           | Inr False \<Rightarrow>
               (case retry_loop ch loads 3 g1 of
                  (Inl e, g2) \<Rightarrow> (Inl e, g2)
                | (Inr u, g2) \<Rightarrow> main_loop ch loads k g2)))"

text \<open>
  \<^verbatim>\<open>generate_quiz\<close>: the bank is emptied, the outer loop runs \<^verbatim>\<open>range(num_questions)\<close> (no
  iteration when the number is zero or negative), and the bank is returned. An exception
  leaves the generator with the bank built so far.
\<close>

definition generate_quiz ::
    "chain \<Rightarrow> (string \<Rightarrow> pyval option) \<Rightarrow> quiz_generator \<Rightarrow> (exn + pyval list) \<times> quiz_generator" where
  "generate_quiz ch loads g =
     (let g0 = g\<lparr>question_bank := []\<rparr>
      in case main_loop ch loads (nat (num_questions g0)) g0 of
           (Inl e, g1) \<Rightarrow> (Inl e, g1)
         | (Inr u, g1) \<Rightarrow> (Inr (question_bank g1), g1))"

section \<open>Notions used to state the properties\<close>

text \<open>The question text of a bank entry: the value under \<^verbatim>\<open>'question'\<close> of a dictionary.\<close>

definition question_text :: "pyval \<Rightarrow> pyval option" where
  "question_text e = (case e of PyDict d \<Rightarrow> map_of d ''question'' | _ \<Rightarrow> None)"

text \<open>
  A candidate is accepted against a bank when it has a truthy question text and the scan
  of the bank finds no entry equal to it; a run of candidates is accepted when each one is
  accepted against the bank extended by those before it.
\<close>

definition accepted :: "pyval list \<Rightarrow> pyval \<Rightarrow> bool" where
  "accepted bank q =
     (case question_text q of
        None \<Rightarrow> False
      | Some t \<Rightarrow> truthy t \<and> scan_bank bank t = Inr True)"

fun accepted_run :: "pyval list \<Rightarrow> pyval list \<Rightarrow> bool" where
  "accepted_run bank [] = True"
| "accepted_run bank (q # qs) = (accepted bank q \<and> accepted_run (bank @ [q]) qs)"

text \<open>
  The Question invariants as the specification words them (its data model and its testable
  properties): \<^verbatim>\<open>choices\<close> has exactly 4 entries whose keys are exactly A, B, C and D,
  \<^verbatim>\<open>answer\<close> is one of A, B, C, D and is the key of one of the choices, and \<^verbatim>\<open>question\<close> is
  a non-empty text. This predicate is the specification's, not a function of the source.
\<close>

definition choice_key :: "pyval \<Rightarrow> string option" where
  "choice_key c =
     (case c of
        PyDict kv \<Rightarrow> (case map_of kv ''key'' of Some (PyStr k) \<Rightarrow> Some k | _ \<Rightarrow> None)
      | _ \<Rightarrow> None)"

definition question_invariants :: "pyval \<Rightarrow> bool" where
  "question_invariants e =
     (case e of
        PyDict d \<Rightarrow>
          (case (map_of d ''question'', map_of d ''choices'', map_of d ''answer'') of
             (Some (PyStr q), Some (PyList cs), Some (PyStr a)) \<Rightarrow>
               q \<noteq> [] \<and> length cs = 4
               \<and> set (map choice_key cs) = {Some ''A'', Some ''B'', Some ''C'', Some ''D''}
               \<and> a \<in> {''A'', ''B'', ''C'', ''D''}
               \<and> Some a \<in> set (map choice_key cs)
           | _ \<Rightarrow> False)
      | _ \<Rightarrow> False)"

section \<open>Concrete generators, chains and decoders\<close>

text \<open>What \<^verbatim>\<open>QuizGenerator(t, n, vectorstore)\<close> builds for a non-empty topic, a number of
  questions up to 10 and a vector store.\<close>

definition fresh_generator :: "string \<Rightarrow> int \<Rightarrow> quiz_generator" where
  "fresh_generator t n =
     \<lparr>topic = t, num_questions = n, vectorstore = True, llm = False,
      question_bank = [], chain_calls = 0\<rparr>"

text \<open>A question of the shape the prompt asks for, with the given text.\<close>

definition well_formed_question :: "string \<Rightarrow> pyval" where
  "well_formed_question q =
     PyDict
       [(''question'', PyStr q),
        (''choices'',
           PyList
             [PyDict [(''key'', PyStr ''A''), (''value'', PyStr ''Berlin'')],
              PyDict [(''key'', PyStr ''B''), (''value'', PyStr ''Madrid'')],
              PyDict [(''key'', PyStr ''C''), (''value'', PyStr ''Paris'')],
              PyDict [(''key'', PyStr ''D''), (''value'', PyStr ''Rome'')]]),
        (''answer'', PyStr ''C''),
        (''explanation'', PyStr ''Paris is the capital of France.'')]"

text \<open>A chain whose model answers every request with the same question.\<close>

definition chain_same :: chain where
  "chain_same t n = Returns (well_formed_question ''What is the capital of France?'')"

text \<open>A chain whose first two responses are the same question and whose later responses
  are that question once more, as a JSON text; and a decoder that agrees with
  \<^verbatim>\<open>json.loads\<close> on the texts used here.\<close>

definition chain_same_text :: chain where
  \<open>chain_same_text t n =
     (if n < 2 then Returns (PyDict [(''question'', PyStr ''Q'')])
      else Returns (PyStr ''{"question": "Q"}''))\<close>

definition loads_example :: "string \<Rightarrow> pyval option" where
  \<open>loads_example s =
     (if s = ''{"question": "Q"}'' then Some (PyDict [(''question'', PyStr ''Q'')])
      else if s = ''{"question": "R"}'' then Some (PyDict [(''question'', PyStr ''R'')])
      else None)\<close>

text \<open>A chain that repeats its first question once and whose third response cannot be
  parsed by the output parser.\<close>

definition chain_parse_failure :: chain where
  "chain_parse_failure t n =
     (if n < 2 then Returns (well_formed_question ''What is the capital of France?'')
      else Raises OutputParserException)"

text \<open>A chain whose very first response cannot be parsed.\<close>

definition chain_unparsable :: chain where
  "chain_unparsable t n = Raises OutputParserException"

text \<open>A chain whose questions differ only in the case of a letter.\<close>

definition chain_case :: chain where
  "chain_case t n =
     Returns (well_formed_question (if n = 0 then ''What is DNA?'' else ''what is DNA?''))"

text \<open>A chain that numbers its questions: every response is new.\<close>

definition chain_fresh :: chain where
  "chain_fresh t n = Returns (PyDict [(''question'', PyStr (replicate (Suc n) (CHR ''q'')))])"

text \<open>A response that fits the declared field types of \<^verbatim>\<open>QuestionSchema\<close> and has no
  choice at all, and a chain that returns it.\<close>

definition malformed_question :: pyval where
  "malformed_question =
     PyDict
       [(''question'', PyStr ''Which one?''),
        (''choices'', PyList []),
        (''answer'', PyStr ''Z''),
        (''explanation'', PyStr [])]"

definition chain_malformed :: chain where
  "chain_malformed t n = Returns malformed_question"

text \<open>A decoder that rejects every text, and a chain that only returns text.\<close>

definition loads_nothing :: "string \<Rightarrow> pyval option" where
  "loads_nothing s = None"

definition chain_text :: chain where
  "chain_text t n =
     (if n = 0 then Returns (PyDict [(''question'', PyStr ''Q'')])
      else if n = 1 then Returns (PyDict [(''question'', PyStr ''Q'')])
      else Returns (PyStr ''not json''))"

section \<open>Auxiliary facts\<close>

lemmas quiz_eval =
  generate_quiz_def generate_question_with_vectorstore_def validate_question_def
  init_llm_def fresh_generator_def QuizGenerator_init_def question_text_def
  numeral_2_eq_2 numeral_3_eq_3

lemma py_eq_refl: "py_eq v v"
proof (induction v)
  case (PyList xs)
  then show ?case by (simp add: list_all2_same)
next
  case (PyDict d)
  have "map_of d k = Some v \<Longrightarrow> py_eq v v" for k v
    using PyDict.IH [of "(k, v)" v] by (auto dest: map_of_SomeD)
  moreover have "k \<in> fst ` set d \<Longrightarrow> map_of d k \<noteq> None" for k
    by (simp add: map_of_eq_None_iff)
  ultimately show ?case
    by (auto simp: list_all_iff split: option.splits)
qed simp_all

lemma py_eq_PyStr: "py_eq (PyStr s) w \<longleftrightarrow> w = PyStr s"
  by (cases w) auto

lemma py_getitem_question_text:
  "py_getitem e ''question'' = Inr u \<longleftrightarrow> question_text e = Some u"
  by (cases e) (auto simp: question_text_def split: option.splits)

lemma scan_bank_True:
  "scan_bank bank t = Inr True \<Longrightarrow>
   \<forall>e\<in>set bank. \<exists>u. question_text e = Some u \<and> \<not> py_eq u t"
  by (induction bank) (auto simp: py_getitem_question_text split: sum.splits if_splits)

lemma scan_bank_fresh:
  assumes "scan_bank bank t = Inr True"
  shows "Some t \<notin> set (map question_text bank)"
proof
  assume "Some t \<in> set (map question_text bank)"
  then obtain e where "e \<in> set bank" "question_text e = Some t" by auto
  with scan_bank_True [OF assms] have "\<not> py_eq t t" by fastforce
  then show False by (simp add: py_eq_refl)
qed

lemma scan_bank_well_formed:
  "list_all (\<lambda>e. question_text e \<noteq> None) bank \<Longrightarrow>
   scan_bank bank t =
     Inr (\<not> list_ex (\<lambda>e. case question_text e of None \<Rightarrow> False | Some u \<Rightarrow> py_eq u t) bank)"
proof (induction bank)
  case Nil
  then show ?case by simp
next
  case (Cons e bank)
  from Cons.prems obtain u where u: "question_text e = Some u" by auto
  then have "py_getitem e ''question'' = Inr u"
    by (simp add: py_getitem_question_text)
  with Cons u show ?case by simp
qed

lemma validate_question_True:
  "validate_question g q = Inr True \<Longrightarrow> accepted (question_bank g) q"
  by (cases q)
     (auto simp: validate_question_def accepted_def question_text_def
           split: sum.splits bool.splits option.splits if_splits)

lemma gqwv_bank:
  "question_bank (snd (generate_question_with_vectorstore ch g)) = question_bank g"
  by (simp add: generate_question_with_vectorstore_def init_llm_def Let_def
      split: chain_outcome.splits)

lemma gqwv_calls:
  "chain_calls (snd (generate_question_with_vectorstore ch g)) \<le> Suc (chain_calls g)"
  by (simp add: generate_question_with_vectorstore_def init_llm_def Let_def
      split: chain_outcome.splits)

text \<open>The retry loop leaves the bank as it is or appends one accepted candidate.\<close>

lemma retry_loop_bank:
  "retry_loop ch loads k g = (r, g') \<Longrightarrow>
   question_bank g' = question_bank g \<or>
   (\<exists>q. question_bank g' = question_bank g @ [q] \<and> accepted (question_bank g) q)"
proof (induction k arbitrary: g)
  case 0
  then show ?case by simp
next
  case (Suc k)
  obtain a g1 where a: "generate_question_with_vectorstore ch g = (a, g1)"
    by (cases "generate_question_with_vectorstore ch g")
  then have b: "question_bank g1 = question_bank g"
    using gqwv_bank [of ch g] by simp
  show ?case
    using Suc.prems Suc.IH [of g1] a b
    by (auto split: sum.splits bool.splits if_splits dest: validate_question_True)
qed

text \<open>The retry loop invokes the chain at most once per attempt.\<close>

lemma retry_loop_calls:
  "chain_calls (snd (retry_loop ch loads k g)) \<le> chain_calls g + k"
proof (induction k arbitrary: g)
  case 0
  then show ?case by simp
next
  case (Suc k)
  obtain a g1 where a: "generate_question_with_vectorstore ch g = (a, g1)"
    by (cases "generate_question_with_vectorstore ch g")
  then have b: "chain_calls g1 \<le> Suc (chain_calls g)"
    using gqwv_calls [of ch g] by simp
  show ?case
    using Suc.IH [of g1] a b
    by (auto split: sum.splits bool.splits)
qed

lemma accepted_run_append:
  "accepted_run bank (xs @ ys) \<longleftrightarrow> accepted_run bank xs \<and> accepted_run (bank @ xs) ys"
  by (induction xs arbitrary: bank) auto

text \<open>The outer loop appends an accepted run of at most one candidate per slot.\<close>

lemma main_loop_bank:
  "main_loop ch loads k g = (r, g') \<Longrightarrow>
   \<exists>qs. question_bank g' = question_bank g @ qs
        \<and> accepted_run (question_bank g) qs \<and> length qs \<le> k"
proof (induction k arbitrary: g)
  case 0
  then show ?case by simp
next
  case (Suc k)
  obtain a g1 where a: "generate_question_with_vectorstore ch g = (a, g1)"
    by (cases "generate_question_with_vectorstore ch g")
  then have b: "question_bank g1 = question_bank g"
    using gqwv_bank [of ch g] by simp
  show ?case
  proof (cases a)
    case (Inl e)
    with Suc.prems a b show ?thesis by auto
  next
    case (Inr q)
    show ?thesis
    proof (cases "validate_question g1 q")
      case (Inl e)
      with Suc.prems a b Inr show ?thesis by auto
    next
      case v: (Inr u)
      show ?thesis
      proof (cases u)
        case True
        let ?g2 = "g1\<lparr>question_bank := question_bank g1 @ [q]\<rparr>"
        from Suc.prems a Inr v True have "main_loop ch loads k ?g2 = (r, g')" by simp
        from Suc.IH [OF this] obtain qs where
          qs: "question_bank g' = question_bank ?g2 @ qs"
              "accepted_run (question_bank ?g2) qs" "length qs \<le> k"
          by blast
        have "accepted (question_bank g) q"
          using validate_question_True [of g1 q] v True b by simp
        with qs b show ?thesis
          by (intro exI [of _ "q # qs"]) simp
      next
        case False
        obtain r2 g2 where r2: "retry_loop ch loads 3 g1 = (r2, g2)"
          by (cases "retry_loop ch loads 3 g1")
        from retry_loop_bank [OF r2] b
        obtain ys where
          ys: "question_bank g2 = question_bank g @ ys"
              "accepted_run (question_bank g) ys" "length ys \<le> 1"
          by (elim disjE exE conjE) (force intro: exI [of _ "[]"], force)
        show ?thesis
        proof (cases r2)
          case (Inl e)
          with Suc.prems a Inr v False r2 have "g' = g2" by simp
          with ys show ?thesis by (intro exI [of _ ys]) auto
        next
          case r2r: (Inr w)
          with Suc.prems a Inr v False r2 have "main_loop ch loads k g2 = (r, g')" by simp
          from Suc.IH [OF this] obtain qs where
            qs: "question_bank g' = question_bank g2 @ qs"
                "accepted_run (question_bank g2) qs" "length qs \<le> k"
            by blast
          from qs ys show ?thesis
            by (intro exI [of _ "ys @ qs"]) (simp add: accepted_run_append)
        qed
      qed
    qed
  qed
qed

lemma accepted_run_distinct:
  "accepted_run bank qs \<Longrightarrow> distinct (map question_text bank) \<Longrightarrow>
   distinct (map question_text (bank @ qs))"
proof (induction qs arbitrary: bank)
  case Nil
  then show ?case by simp
next
  case (Cons q qs)
  from Cons.prems(1) have acc: "accepted bank q" and run: "accepted_run (bank @ [q]) qs"
    by simp_all
  from acc obtain t where t: "question_text q = Some t" "scan_bank bank t = Inr True"
    by (auto simp: accepted_def split: option.splits)
  have "distinct (map question_text (bank @ [q]))"
    using Cons.prems(2) t scan_bank_fresh [of bank t] by simp
  from Cons.IH [OF run this] show ?case by simp
qed

lemma accepted_run_truthy:
  "accepted_run bank qs \<Longrightarrow> q \<in> set qs \<Longrightarrow> \<exists>t. question_text q = Some t \<and> truthy t"
  by (induction qs arbitrary: bank) (auto simp: accepted_def split: option.splits)

text \<open>Whatever \<^verbatim>\<open>generate_quiz\<close> ends with, the bank it leaves is an accepted run that
  started from the empty bank, no longer than the number of slots.\<close>

lemma generate_quiz_bank:
  assumes "generate_quiz ch loads g = (r, g')"
  shows "accepted_run [] (question_bank g') \<and> length (question_bank g') \<le> nat (num_questions g)"
proof -
  let ?g0 = "g\<lparr>question_bank := []\<rparr>"
  obtain r1 g1 where m: "main_loop ch loads (nat (num_questions g)) ?g0 = (r1, g1)"
    by (cases "main_loop ch loads (nat (num_questions g)) ?g0")
  with assms have "g' = g1"
    by (auto simp: generate_quiz_def split: sum.splits)
  with main_loop_bank [OF m] show ?thesis by auto
qed

lemma generate_quiz_returns:
  "fst (generate_quiz ch loads g) = Inr bank \<Longrightarrow>
   bank = question_bank (snd (generate_quiz ch loads g))"
  by (auto simp: generate_quiz_def Let_def split: prod.splits sum.splits)

text \<open>The one failure the retry loop does absorb: a text that \<^verbatim>\<open>json.loads\<close> rejects. Three
  such texts in a row leave the slot empty and the run goes on.\<close>

lemma undecodable_text_skips_slot:
  "generate_quiz chain_text loads_nothing (fresh_generator ''X'' 2) =
     (Inr [PyDict [(''question'', PyStr ''Q'')]],
      (fresh_generator ''X'' 2)
        \<lparr>llm := True, question_bank := [PyDict [(''question'', PyStr ''Q'')]], chain_calls := 5\<rparr>)"
  by (simp add: quiz_eval chain_text_def loads_nothing_def)


text \<open>Three slots and three new questions: the bank holds them in the order they came.\<close>

lemma fresh_questions_fill_every_slot:
  "generate_quiz chain_fresh loads (fresh_generator ''Photosynthesis'' 3) =
     (Inr [PyDict [(''question'', PyStr ''q'')], PyDict [(''question'', PyStr ''qq'')],
           PyDict [(''question'', PyStr ''qqq'')]],
      (fresh_generator ''Photosynthesis'' 3)
        \<lparr>llm := True,
         question_bank :=
           [PyDict [(''question'', PyStr ''q'')], PyDict [(''question'', PyStr ''qq'')],
            PyDict [(''question'', PyStr ''qqq'')]],
         chain_calls := 3\<rparr>)"
  by (simp add: quiz_eval chain_fresh_def)

section \<open>The claims\<close>

subsection \<open>C1: the retry loop after a duplicate\<close>

text \<open>
  C1 says that after a duplicate first candidate the generator makes up to 3 further
  attempts, appends the first unique candidate, and otherwise skips the slot and goes on
  without error. The source does not get that far. With topic \<^verbatim>\<open>"X"\<close>, two questions and
  a chain that always returns the same well-formed question, the first slot is filled, the
  second candidate is a duplicate, and the first retry hands the chain's dictionary to
  \<^verbatim>\<open>json.loads\<close>: \<^verbatim>\<open>generate_quiz\<close> ends with a \<^verbatim>\<open>TypeError\<close> after three chain invocations,
  instead of returning the one-entry bank. When the chain returns the duplicate as JSON
  text, so that \<^verbatim>\<open>json.loads\<close> succeeds, the duplicate branch of the retry loop raises
  \<^verbatim>\<open>TypeError\<close> as well (a string plus an integer in its message).
\<close>

theorem retry_after_duplicate_raises_TypeError:
  "QuizGenerator_init (Some ''X'') 2 True = Inr (fresh_generator ''X'' 2)
   \<and> generate_quiz chain_same loads (fresh_generator ''X'' 2) =
       (Inl TypeError,
        (fresh_generator ''X'' 2)
          \<lparr>llm := True,
           question_bank := [well_formed_question ''What is the capital of France?''],
           chain_calls := 3\<rparr>)
   \<and> fst (generate_quiz chain_same_text loads_example (fresh_generator ''X'' 2)) = Inl TypeError"
  by (simp add: quiz_eval chain_same_def chain_same_text_def loads_example_def
      well_formed_question_def)

subsection \<open>C2: a response the output parser rejects\<close>

text \<open>
  C2 says that a response which cannot be parsed into a question is absorbed by the retry
  loop as a failed attempt and never leaves \<^verbatim>\<open>generate_quiz\<close> as an exception. In the
  source the parser runs inside the chain, whose invocation stands outside the \<^verbatim>\<open>try\<close>, and
  the handler names \<^verbatim>\<open>json.JSONDecodeError\<close> only. So the parser's exception leaves
  \<^verbatim>\<open>generate_quiz\<close> both when it strikes in the retry loop (two questions, the first response
  repeated, the third one unparsable) and when it strikes at the first candidate of a slot.
\<close>

theorem parse_failure_escapes_generate_quiz:
  "fst (generate_quiz chain_parse_failure loads (fresh_generator ''X'' 2)) =
     Inl OutputParserException
   \<and> chain_calls (snd (generate_quiz chain_parse_failure loads (fresh_generator ''X'' 2))) = 3
   \<and> fst (generate_quiz chain_unparsable loads (fresh_generator ''X'' 1)) =
     Inl OutputParserException"
  by (simp add: quiz_eval chain_parse_failure_def chain_unparsable_def well_formed_question_def)

subsection \<open>C3: no two returned entries share their question text\<close>

text \<open>
  C3: in the bank returned by a completed \<^verbatim>\<open>generate_quiz\<close>, every entry has a question text
  and no two entries have the same one. The comparison is Python's \<^verbatim>\<open>==\<close> on the texts, which
  on strings is equality character by character: texts that differ in the case of a letter
  are different.
\<close>

theorem generate_quiz_unique_question_texts:
  assumes "fst (generate_quiz ch loads g) = Inr bank"
  shows "distinct (map question_text bank) \<and> None \<notin> set (map question_text bank)"
proof -
  obtain r g' where run: "generate_quiz ch loads g = (r, g')"
    by (cases "generate_quiz ch loads g")
  with assms generate_quiz_returns [OF assms] have bank: "bank = question_bank g'"
    by simp
  from generate_quiz_bank [OF run] have acc: "accepted_run [] bank"
    by (simp add: bank)
  from accepted_run_distinct [OF acc] have "distinct (map question_text bank)"
    by simp
  moreover have "None \<notin> set (map question_text bank)"
    using accepted_run_truthy [OF acc] by force
  ultimately show ?thesis by simp
qed

theorem generate_quiz_unique_question_texts_witness:
  "fst (generate_quiz chain_case loads_nothing (fresh_generator ''Biology'' 2)) =
     Inr [well_formed_question ''What is DNA?'', well_formed_question ''what is DNA?'']
   \<and> distinct (map question_text
        [well_formed_question ''What is DNA?'', well_formed_question ''what is DNA?''])
   \<and> None \<notin> set (map question_text
        [well_formed_question ''What is DNA?'', well_formed_question ''what is DNA?''])"
proof -
  have run: "fst (generate_quiz chain_case loads_nothing (fresh_generator ''Biology'' 2)) =
     Inr [well_formed_question ''What is DNA?'', well_formed_question ''what is DNA?'']"
    by (simp add: quiz_eval chain_case_def well_formed_question_def)
  from generate_quiz_unique_question_texts [OF run] run show ?thesis
    by simp
qed

subsection \<open>C4: never more entries than slots\<close>

text \<open>
  C4: a completed \<^verbatim>\<open>generate_quiz\<close> returns at most \<^verbatim>\<open>num_questions\<close> entries; for a number of
  questions from 1 to 10 that is the number itself. The bound can be missed from below: a
  slot whose retries all fail on undecodable text stays empty.
\<close>

theorem generate_quiz_length_bound:
  assumes "fst (generate_quiz ch loads g) = Inr bank"
  shows "length bank \<le> nat (num_questions g)"
proof -
  obtain r g' where run: "generate_quiz ch loads g = (r, g')"
    by (cases "generate_quiz ch loads g")
  with generate_quiz_returns [OF assms] have "bank = question_bank g'"
    by simp
  with generate_quiz_bank [OF run] show ?thesis by simp
qed

theorem generate_quiz_length_bound_witness:
  "fst (generate_quiz chain_text loads_nothing (fresh_generator ''X'' 2)) =
     Inr [PyDict [(''question'', PyStr ''Q'')]]
   \<and> length [PyDict [(''question'', PyStr ''Q'')]] \<le> nat (num_questions (fresh_generator ''X'' 2))"
proof -
  have run: "fst (generate_quiz chain_text loads_nothing (fresh_generator ''X'' 2)) =
     Inr [PyDict [(''question'', PyStr ''Q'')]]"
    by (simp add: undecodable_text_skips_slot)
  from generate_quiz_length_bound [OF run] run show ?thesis
    by simp
qed

subsection \<open>C5: what every returned entry is known to satisfy\<close>

text \<open>
  C5 says that every returned entry satisfies the Question invariants (four choices keyed
  A to D, an answer among them, a non-empty text). Nothing in the source checks choices or
  answers: a response with an empty list of choices and the answer \<^verbatim>\<open>"Z"\<close> is returned as it
  came.
\<close>

theorem malformed_entry_is_returned:
  "fst (generate_quiz chain_malformed loads_nothing (fresh_generator ''X'' 1)) =
     Inr [malformed_question]
   \<and> \<not> question_invariants malformed_question"
  by (simp add: quiz_eval chain_malformed_def malformed_question_def question_invariants_def)

text \<open>
  C5 as amended: every entry of the bank returned by a completed \<^verbatim>\<open>generate_quiz\<close> is a
  dictionary with a \<^verbatim>\<open>'question'\<close> key whose value is truthy; when that value is a string,
  it is not empty.
\<close>

theorem generate_quiz_entries_have_question:
  assumes "fst (generate_quiz ch loads g) = Inr bank" and "e \<in> set bank"
  shows "\<exists>d t. e = PyDict d \<and> map_of d ''question'' = Some t \<and> truthy t
               \<and> (\<forall>s. t = PyStr s \<longrightarrow> s \<noteq> [])"
proof -
  obtain r g' where run: "generate_quiz ch loads g = (r, g')"
    by (cases "generate_quiz ch loads g")
  with generate_quiz_returns [OF assms(1)] have "bank = question_bank g'"
    by simp
  with generate_quiz_bank [OF run] have "accepted_run [] bank" by simp
  from accepted_run_truthy [OF this assms(2)]
  obtain t where t: "question_text e = Some t" "truthy t" by blast
  then obtain d where "e = PyDict d" "map_of d ''question'' = Some t"
    by (cases e) (auto simp: question_text_def)
  with t show ?thesis by auto
qed

theorem generate_quiz_entries_have_question_witness:
  "fst (generate_quiz chain_malformed loads_nothing (fresh_generator ''X'' 1)) =
     Inr [malformed_question]
   \<and> malformed_question \<in> set [malformed_question]
   \<and> (\<exists>d t. malformed_question = PyDict d \<and> map_of d ''question'' = Some t \<and> truthy t
            \<and> (\<forall>s. t = PyStr s \<longrightarrow> s \<noteq> []))"
proof -
  have run: "fst (generate_quiz chain_malformed loads_nothing (fresh_generator ''X'' 1)) =
     Inr [malformed_question]"
    by (simp add: quiz_eval chain_malformed_def malformed_question_def)
  have mem: "malformed_question \<in> set [malformed_question]" by simp
  from generate_quiz_entries_have_question [OF run mem] run mem show ?thesis
    by blast
qed

subsection \<open>C6: more than ten questions\<close>

text \<open>
  C6: constructing a generator with more than 10 questions fails in the constructor with the
  error \<^verbatim>\<open>"Number of questions cannot exceed 10."\<close>, whatever the topic and the vector store.
  No generator comes out of it, so nothing can be generated with it.
\<close>

theorem init_rejects_more_than_ten:
  assumes "n > 10"
  shows "QuizGenerator_init topic_arg n vs = Inl (ValueError ''Number of questions cannot exceed 10.'')"
  using assms by (simp add: QuizGenerator_init_def)

theorem init_rejects_more_than_ten_witness:
  "(11::int) > 10
   \<and> QuizGenerator_init (Some ''Photosynthesis'') 11 True =
       Inl (ValueError ''Number of questions cannot exceed 10.'')"
proof -
  have h: "(11::int) > 10" by simp
  from init_rejects_more_than_ten [OF h, of "Some ''Photosynthesis''" True] h show ?thesis
    by simp
qed

subsection \<open>C7: what \<^verbatim>\<open>validate_question\<close> answers\<close>

text \<open>
  C7: \<^verbatim>\<open>validate_question\<close> applied to a candidate dictionary raises the \<^verbatim>\<open>ValueError\<close> when
  the dictionary has no \<^verbatim>\<open>'question'\<close> key or a falsy (empty) value under it, the empty
  dictionary included, whatever the bank holds. Otherwise, on a bank whose entries all have
  a question text, it returns a boolean: true exactly when no entry of the bank has a
  question text equal to the candidate's. Equality is Python's \<^verbatim>\<open>==\<close>, which on two strings
  holds exactly when they are the same string. So a duplicate is answered by \<open>False\<close>, never
  by an error, and a missing text by the error, never by \<open>False\<close>.
\<close>

theorem validate_question_characterisation:
  "(map_of d ''question'' = None \<or> (\<exists>t. map_of d ''question'' = Some t \<and> \<not> truthy t)
      \<longrightarrow> validate_question g (PyDict d) =
            Inl (ValueError ''The dict object must contain a non-empty 'question' key''))
   \<and> (list_all (\<lambda>e. question_text e \<noteq> None) (question_bank g)
      \<longrightarrow> (\<forall>t. map_of d ''question'' = Some t \<and> truthy t
             \<longrightarrow> validate_question g (PyDict d) =
                   Inr (\<not> list_ex (\<lambda>e. case question_text e of
                                             None \<Rightarrow> False
                                           | Some u \<Rightarrow> py_eq u t) (question_bank g))))
   \<and> (\<forall>a b. py_eq (PyStr a) (PyStr b) \<longleftrightarrow> a = b)"
proof -
  have missing: "validate_question g (PyDict d) =
      Inl (ValueError ''The dict object must contain a non-empty 'question' key'')"
    if "map_of d ''question'' = None \<or> (\<exists>t. map_of d ''question'' = Some t \<and> \<not> truthy t)"
    using that by (auto simp: validate_question_def)
  have present: "validate_question g (PyDict d) =
      Inr (\<not> list_ex (\<lambda>e. case question_text e of None \<Rightarrow> False | Some u \<Rightarrow> py_eq u t)
              (question_bank g))"
    if "list_all (\<lambda>e. question_text e \<noteq> None) (question_bank g)"
      and "map_of d ''question'' = Some t" and "truthy t" for t
    using scan_bank_well_formed [OF that(1), of t] that(2,3)
    by (simp add: validate_question_def)
  from missing present show ?thesis by simp
qed

theorem validate_question_characterisation_witness:
  "list_all (\<lambda>e. question_text e \<noteq> None)
     (question_bank ((fresh_generator ''X'' 3)\<lparr>question_bank := [well_formed_question ''What is DNA?'']\<rparr>))
   \<and> validate_question
       ((fresh_generator ''X'' 3)\<lparr>question_bank := [well_formed_question ''What is DNA?'']\<rparr>)
       (PyDict []) =
     Inl (ValueError ''The dict object must contain a non-empty 'question' key'')
   \<and> validate_question
       ((fresh_generator ''X'' 3)\<lparr>question_bank := [well_formed_question ''What is DNA?'']\<rparr>)
       (PyDict [(''question'', PyStr [])]) =
     Inl (ValueError ''The dict object must contain a non-empty 'question' key'')
   \<and> validate_question
       ((fresh_generator ''X'' 3)\<lparr>question_bank := [well_formed_question ''What is DNA?'']\<rparr>)
       (PyDict [(''question'', PyStr ''What is DNA?'')]) = Inr False
   \<and> validate_question
       ((fresh_generator ''X'' 3)\<lparr>question_bank := [well_formed_question ''What is DNA?'']\<rparr>)
       (PyDict [(''question'', PyStr ''what is DNA?'')]) = Inr True"
proof -
  let ?g = "(fresh_generator ''X'' 3)\<lparr>question_bank := [well_formed_question ''What is DNA?'']\<rparr>"
  have h: "list_all (\<lambda>e. question_text e \<noteq> None) (question_bank ?g)"
    by (simp add: fresh_generator_def well_formed_question_def question_text_def)
  have q: "question_text (well_formed_question ''What is DNA?'') = Some (PyStr ''What is DNA?'')"
    by (simp add: well_formed_question_def question_text_def)
  have b: "question_bank ?g = [well_formed_question ''What is DNA?'']"
    by (simp add: fresh_generator_def)
  show ?thesis
    using h
      validate_question_characterisation [of "[]" ?g]
      validate_question_characterisation [of "[(''question'', PyStr [])]" ?g]
      validate_question_characterisation [of "[(''question'', PyStr ''What is DNA?'')]" ?g]
      validate_question_characterisation [of "[(''question'', PyStr ''what is DNA?'')]" ?g]
    by (simp add: b q)
qed

subsection \<open>C8: the default topic\<close>

text \<open>
  C8: a generator constructed without a topic (\<^verbatim>\<open>None\<close>) or with the empty string has the
  topic \<^verbatim>\<open>"General Knowledge"\<close>; constructed with a non-empty string, it has that string.
\<close>

theorem init_topic_default:
  assumes "QuizGenerator_init topic_arg n vs = Inr g"
  shows "(topic_arg = None \<or> topic_arg = Some [] \<longrightarrow> topic g = ''General Knowledge'')
       \<and> (\<forall>s. topic_arg = Some s \<and> s \<noteq> [] \<longrightarrow> topic g = s)"
  using assms by (auto simp: QuizGenerator_init_def split: if_splits)

theorem init_topic_default_witness:
  "QuizGenerator_init None 3 True = Inr (fresh_generator ''General Knowledge'' 3)
   \<and> topic (fresh_generator ''General Knowledge'' 3) = ''General Knowledge''
   \<and> QuizGenerator_init (Some []) 3 True = Inr (fresh_generator ''General Knowledge'' 3)
   \<and> QuizGenerator_init (Some ''Photosynthesis'') 3 True = Inr (fresh_generator ''Photosynthesis'' 3)
   \<and> topic (fresh_generator ''Photosynthesis'' 3) = ''Photosynthesis''"
proof -
  have a: "QuizGenerator_init None 3 True = Inr (fresh_generator ''General Knowledge'' 3)"
    by (simp add: QuizGenerator_init_def fresh_generator_def)
  have b: "QuizGenerator_init (Some []) 3 True = Inr (fresh_generator ''General Knowledge'' 3)"
    by (simp add: QuizGenerator_init_def fresh_generator_def)
  have c: "QuizGenerator_init (Some ''Photosynthesis'') 3 True =
      Inr (fresh_generator ''Photosynthesis'' 3)"
    by (simp add: QuizGenerator_init_def fresh_generator_def)
  from init_topic_default [OF a] init_topic_default [OF c] a b c show ?thesis
    by simp
qed

subsection \<open>C9: the bank is emptied, then only appended to\<close>

text \<open>
  C9: \<^verbatim>\<open>generate_quiz\<close> starts from the empty bank, so what the bank held before has no effect
  on the run; invoking the chain leaves the bank alone, and the retry loop and the outer
  loop, started with any number of attempts or slots from any state, end with a bank that
  has the bank they started from as a prefix. The bank a run ends with is an accepted run
  from the empty bank (each entry was accepted against exactly the entries before it), and
  it is what a completed run returns.
\<close>

theorem question_bank_reset_and_append_only:
  "generate_quiz ch loads (g\<lparr>question_bank := old\<rparr>) = generate_quiz ch loads g
   \<and> question_bank (snd (generate_question_with_vectorstore ch g)) = question_bank g
   \<and> prefix (question_bank g) (question_bank (snd (retry_loop ch loads k g)))
   \<and> prefix (question_bank g) (question_bank (snd (main_loop ch loads k g)))
   \<and> accepted_run [] (question_bank (snd (generate_quiz ch loads g)))
   \<and> (case fst (generate_quiz ch loads g) of
        Inl e \<Rightarrow> True
      | Inr bank \<Rightarrow> bank = question_bank (snd (generate_quiz ch loads g)))"
proof -
  have reset: "generate_quiz ch loads (g\<lparr>question_bank := old\<rparr>) = generate_quiz ch loads g"
    by (simp add: generate_quiz_def)
  have retry: "prefix (question_bank g) (question_bank (snd (retry_loop ch loads k g)))"
    using retry_loop_bank [of ch loads k g "fst (retry_loop ch loads k g)"
        "snd (retry_loop ch loads k g)"]
    by auto
  have outer: "prefix (question_bank g) (question_bank (snd (main_loop ch loads k g)))"
    using main_loop_bank [of ch loads k g "fst (main_loop ch loads k g)"
        "snd (main_loop ch loads k g)"]
    by auto
  have run: "accepted_run [] (question_bank (snd (generate_quiz ch loads g)))"
    using generate_quiz_bank [of ch loads g "fst (generate_quiz ch loads g)"
        "snd (generate_quiz ch loads g)"]
    by simp
  have ret: "(case fst (generate_quiz ch loads g) of
        Inl e \<Rightarrow> True
      | Inr bank \<Rightarrow> bank = question_bank (snd (generate_quiz ch loads g)))"
    using generate_quiz_returns [of ch loads g] by (simp split: sum.splits)
  from reset gqwv_bank [of ch g] retry outer run ret show ?thesis
    by simp
qed

theorem question_bank_reset_and_append_only_witness:
  "generate_quiz chain_case loads_nothing
     ((fresh_generator ''Biology'' 2)\<lparr>question_bank := [PyNone, PyInt 7]\<rparr>) =
   generate_quiz chain_case loads_nothing (fresh_generator ''Biology'' 2)
   \<and> question_bank (snd (generate_quiz chain_case loads_nothing (fresh_generator ''Biology'' 2))) =
     [well_formed_question ''What is DNA?'', well_formed_question ''what is DNA?'']
   \<and> prefix [well_formed_question ''What is DNA?'']
       (question_bank (snd (main_loop chain_case loads_nothing 1
          ((fresh_generator ''Biology'' 2)
             \<lparr>question_bank := [well_formed_question ''What is DNA?''], chain_calls := 1\<rparr>))))"
proof -
  let ?g1 = "(fresh_generator ''Biology'' 2)
             \<lparr>question_bank := [well_formed_question ''What is DNA?''], chain_calls := 1\<rparr>"
  have bank: "question_bank (snd (generate_quiz chain_case loads_nothing (fresh_generator ''Biology'' 2))) =
     [well_formed_question ''What is DNA?'', well_formed_question ''what is DNA?'']"
    by (simp add: quiz_eval chain_case_def well_formed_question_def)
  have start: "question_bank ?g1 = [well_formed_question ''What is DNA?'']"
    by (simp add: fresh_generator_def)
  from question_bank_reset_and_append_only
         [where ch = chain_case and loads = loads_nothing
            and g = "fresh_generator ''Biology'' 2" and old = "[PyNone, PyInt 7]"]
       question_bank_reset_and_append_only
         [where ch = chain_case and loads = loads_nothing and g = ?g1 and k = 1]
       bank start
  show ?thesis by simp
qed

subsection \<open>C10: zero or fewer questions\<close>

text \<open>
  C10: the constructor accepts every number of questions up to 10, zero and the negative
  numbers included; \<^verbatim>\<open>generate_quiz\<close> on such a generator returns the empty list and leaves
  the generator as it was constructed: the chain has not been invoked (\<open>chain_calls\<close> is
  still 0) and the language model has not been initialised.
\<close>

theorem no_lower_bound_on_num_questions:
  assumes "n \<le> 0"
  shows "\<exists>g. QuizGenerator_init topic_arg n vs = Inr g
           \<and> generate_quiz ch loads g = (Inr [], g)
           \<and> chain_calls g = 0"
  using assms by (simp add: QuizGenerator_init_def generate_quiz_def)

theorem no_lower_bound_on_num_questions_witness:
  "(-3::int) \<le> 0
   \<and> (\<exists>g. QuizGenerator_init (Some ''X'') (-3) True = Inr g
          \<and> generate_quiz chain_same loads_nothing g = (Inr [], g)
          \<and> chain_calls g = 0)"
proof -
  have h: "(-3::int) \<le> 0" by simp
  from no_lower_bound_on_num_questions [OF h, of "Some ''X''" True chain_same loads_nothing] h
  show ?thesis by simp
qed


end
